theory Spec2Isabelle
  imports Complex_Main "HOL-Library.Word"
begin

section \<open>CropCare: the heuristic plant disease detector and the advice fallback\<close>

text \<open>
  A shallow embedding of \<^verbatim>\<open>plant_disease_detector.py\<close> and of
  \<^verbatim>\<open>get_treatment_recommendation\<close> from \<^verbatim>\<open>gemini_service.py\<close>.

  Conventions of the embedding:
  \<^item> Python floats are idealised as \<^typ>\<open>real\<close>; a decimal literal of the source
    (\<^verbatim>\<open>0.15\<close>) is the rational it denotes.
  \<^item> An exception is a value: a function that may raise returns \<open>error + 'a\<close>, with
    \<open>Inl\<close> for the raised exception. Only subclasses of \<^verbatim>\<open>Exception\<close> are modelled.
  \<^item> The module \<^verbatim>\<open>random\<close> is an explicit generator state that every drawing
    function takes and returns.
  \<^item> Functions of OpenCV, of the JSON decoder and of the generative-text client are
    not part of the repository; what the source needs of them is taken as a parameter.
\<close>

subsection \<open>Exceptions\<close>

datatype error =
  ValueError | IndexError | TypeError | KeyError | OverflowError | OSError
  | JSONDecodeError | CvError | ApiError

subsection \<open>The random source\<close>

text \<open>
  \<open>floats r k\<close> is what the \<open>k\<close>-th call of \<^verbatim>\<open>random.random()\<close> returns and
  \<open>draws r k\<close> is the raw integer behind the \<open>k\<close>-th bounded draw
  (\<^verbatim>\<open>_randbelow\<close>, used by \<^verbatim>\<open>choice\<close> and \<^verbatim>\<open>randint\<close>); \<open>fpos\<close> and \<open>ipos\<close>
  count the calls made so far.
\<close>

record rng =
  floats :: "nat \<Rightarrow> real"
  draws :: "nat \<Rightarrow> nat"
  fpos :: nat
  ipos :: nat

text \<open>The contract of \<^verbatim>\<open>random.random()\<close>: every value lies in \<open>[0, 1)\<close>.\<close>

definition rng_ok :: "rng \<Rightarrow> bool" where
  "rng_ok r = (\<forall>k. 0 \<le> floats r k \<and> floats r k < 1)"

definition random_random :: "rng \<Rightarrow> real \<times> rng" where
  "random_random r = (floats r (fpos r), r\<lparr>fpos := Suc (fpos r)\<rparr>)"

definition randbelow :: "nat \<Rightarrow> rng \<Rightarrow> nat \<times> rng" where
  "randbelow n r = (draws r (ipos r) mod n, r\<lparr>ipos := Suc (ipos r)\<rparr>)"

text \<open>\<^verbatim>\<open>random.choice(seq)\<close>: \<^verbatim>\<open>IndexError\<close> on an empty sequence.\<close>

definition random_choice :: "'a list \<Rightarrow> rng \<Rightarrow> (error + 'a) \<times> rng" where
  "random_choice seq r =
     (if seq = [] then (Inl IndexError, r)
      else (let (k, r') = randbelow (length seq) r in (Inr (seq ! k), r')))"

text \<open>\<^verbatim>\<open>random.randint(a, b)\<close>: an integer of \<open>[a, b]\<close>; \<^verbatim>\<open>ValueError\<close> on an empty range.\<close>

definition random_randint :: "int \<Rightarrow> int \<Rightarrow> rng \<Rightarrow> (error + int) \<times> rng" where
  "random_randint a b r =
     (if b < a then (Inl ValueError, r)
      else (let (k, r') = randbelow (nat (b - a + 1)) r in (Inr (a + int k), r')))"

text \<open>\<^verbatim>\<open>random.uniform(a, b)\<close> is \<^verbatim>\<open>a + (b - a) * random()\<close>.\<close>

definition random_uniform :: "real \<Rightarrow> real \<Rightarrow> rng \<Rightarrow> real \<times> rng" where
  "random_uniform a b r = (let (u, r') = random_random r in (a + (b - a) * u, r'))"

subsection \<open>Python sequences and strings\<close>

text \<open>\<^verbatim>\<open>xs[i]\<close>: a negative index counts from the end; out of range raises.\<close>

definition getitem :: "'a list \<Rightarrow> int \<Rightarrow> error + 'a" where
  "getitem xs i =
     (if 0 \<le> i \<and> i < int (length xs) then Inr (xs ! nat i)
      else if i < 0 \<and> - int (length xs) \<le> i then Inr (xs ! nat (int (length xs) + i))
      else Inl IndexError)"

text \<open>Sequencing a step that may raise inside a computation that carries the generator.\<close>

definition on_value :: "error + 'a \<Rightarrow> rng \<Rightarrow> ('a \<Rightarrow> (error + 'b) \<times> rng) \<Rightarrow> (error + 'b) \<times> rng" where
  "on_value x r f = (case x of Inl e \<Rightarrow> (Inl e, r) | Inr v \<Rightarrow> f v)"

fun startswith :: "string \<Rightarrow> string \<Rightarrow> bool" where
  "startswith s [] = True"
| "startswith [] (p # ps) = False"
| "startswith (c # cs) (p # ps) = (c = p \<and> startswith cs ps)"

text \<open>\<^verbatim>\<open>sub in s\<close> for strings: \<open>sub\<close> occurs in \<open>s\<close> as a contiguous run.\<close>

fun str_contains :: "string \<Rightarrow> string \<Rightarrow> bool" where
  "str_contains [] sub = (sub = [])"
| "str_contains (c # cs) sub = (startswith (c # cs) sub \<or> str_contains cs sub)"

text \<open>\<^verbatim>\<open>s.replace(old, new)\<close> for single characters.\<close>

definition str_replace :: "char \<Rightarrow> char \<Rightarrow> string \<Rightarrow> string" where
  "str_replace old new s = map (\<lambda>c. if c = old then new else c) s"

subsection \<open>The class labels\<close>

definition CLASSES :: "string list" where
  "CLASSES =
    [''Apple_Apple_scab'', ''Apple_Black_rot'', ''Apple_Cedar_apple_rust'', ''Apple_Healthy'',
     ''Background_without_leaves'', ''Blueberry_Healthy'', ''Cherry_Powdery_mildew'', ''Cherry_Healthy'',
     ''Corn_Cercospora_leaf_spot'', ''Corn_Common_rust'', ''Corn_Northern_Leaf_Blight'', ''Corn_Healthy'',
     ''Grape_Black_rot'', ''Grape_Esca'', ''Grape_Leaf_blight'', ''Grape_Healthy'',
     ''Orange_Haunglongbing'', ''Peach_Bacterial_spot'', ''Peach_Healthy'',
     ''Pepper_Bacterial_spot'', ''Pepper_Healthy'', ''Potato_Early_blight'', ''Potato_Late_blight'', ''Potato_Healthy'',
     ''Raspberry_Healthy'', ''Soybean_Healthy'', ''Squash_Powdery_mildew'',
     ''Strawberry_Leaf_scorch'', ''Strawberry_Healthy'', ''Tomato_Bacterial_spot'', ''Tomato_Early_blight'',
     ''Tomato_Late_blight'', ''Tomato_Leaf_Mold'', ''Tomato_Septoria_leaf_spot'',
     ''Tomato_Spider_mites'', ''Tomato_Target_Spot'', ''Tomato_Mosaic_virus'', ''Tomato_Yellow_Leaf_Curl_Virus'', ''Tomato_Healthy'']"

subsection \<open>The heuristic classifier\<close>

text \<open>
  \<^verbatim>\<open>np.mean\<close> over all elements of a non-empty array. Of an empty array numpy returns
  \<^verbatim>\<open>nan\<close>, which no \<^typ>\<open>real\<close> stands for: every use below is on an array known to
  be non-empty, or checks emptiness first.
\<close>

definition np_mean :: "real list \<Rightarrow> real" where
  "np_mean xs = sum_list xs / real (length xs)"

definition healthy_indices :: "int list" where
  "healthy_indices = [3, 5, 7, 11, 15, 18, 20, 23, 24, 25, 28, 38]"

text \<open>
  \<^verbatim>\<open>simple_disease_classifier(features)\<close>. The rules are tried in the order of the
  source; \<^verbatim>\<open>and\<close> evaluates its right operand only when the left one holds; a
  comparison with \<^verbatim>\<open>nan\<close> is false.
\<close>

definition simple_disease_classifier :: "real list \<Rightarrow> rng \<Rightarrow> (error + int) \<times> rng" where
  "simple_disease_classifier features r =
     (let color_features = take 8 features;
          texture_features = drop 8 features
      in
      on_value (getitem color_features 0) r (\<lambda>c0.
      on_value (if c0 > 0.15 then map_sum id (\<lambda>t1. t1 > 0.2) (getitem texture_features 1)
                else Inr False) r (\<lambda>rule1.
      if rule1 then (let (u, r') = random_random r in (Inr (if u > 0.5 then 1 else 0), r'))
      else
      on_value (getitem color_features 1) r (\<lambda>c1.
      if c1 > 0.2 then (Inr 30, r)
      else
      on_value (getitem color_features 3) r (\<lambda>c3.
      if c3 > 0.1 then (Inr 6, r)
      else
      on_value (getitem color_features 2) r (\<lambda>c2.
      if c2 > 0.12 then (Inr 31, r)
      else
      on_value (if take 5 color_features \<noteq> [] \<and> np_mean (take 5 color_features) < 0.1
                then map_sum id (\<lambda>c5. c5 > 0.4) (getitem color_features 5)
                else Inr False) r (\<lambda>rule5.
      if rule5 then random_choice healthy_indices r
      else random_randint 0 (int (length CLASSES) - 1) r)))))))"

subsection \<open>Decoded JSON values and the sample prediction files\<close>

text \<open>
  What \<^verbatim>\<open>json.load\<close> returns: \<^verbatim>\<open>None\<close>, a bool, an int (unbounded), a float, a
  str, a list or a dict (its keys in insertion order, pairwise distinct).
\<close>

datatype json =
  JNull | JBool bool | JInt int | JFloat real | JStr string | JArr "json list"
  | JObj "(string \<times> json) list"

type_synonym prediction = "json \<times> real"

text \<open>
  The state of the world a detection call reads: for a path, \<open>files\<close> is \<open>None\<close> when
  \<^verbatim>\<open>os.path.exists\<close> is false, and otherwise what \<^verbatim>\<open>open\<close> followed by
  \<^verbatim>\<open>json.load\<close> gives (an exception or the decoded value); \<open>imread\<close> is the result of
  \<^verbatim>\<open>cv2.imread\<close>, \<open>None\<close> when the file cannot be read or decoded. The image type
  is declared first.
\<close>

record 'a image =
  height :: nat
  width :: nat
  px :: "nat \<Rightarrow> nat \<Rightarrow> 'a"

type_synonym pixel = "8 word \<times> 8 word \<times> 8 word"

record env =
  files :: "string \<Rightarrow> (error + json) option"
  imread :: "string \<Rightarrow> pixel image option"

text \<open>
  Library functions the source calls and the repository does not contain:
  \<^verbatim>\<open>float(s)\<close> on a str (\<^verbatim>\<open>ValueError\<close> when it is not a number), \<^verbatim>\<open>float(n)\<close> on an
  int (\<^verbatim>\<open>OverflowError\<close> when it is too large for a double), the per-pixel colour
  conversions of \<^verbatim>\<open>cv2.cvtColor\<close>
  (\<^verbatim>\<open>COLOR_RGB2HSV\<close>, \<^verbatim>\<open>COLOR_RGB2GRAY\<close>), the two \<^verbatim>\<open>cv2.Sobel\<close> derivatives (the value
  at a row and a column of the output, which has the shape of the input) and the
  interpolation of \<^verbatim>\<open>cv2.resize\<close> (the pixel at a row and a column of the output).
\<close>

record lib =
  float_of_str :: "string \<Rightarrow> error + real"
  float_of_int :: "int \<Rightarrow> error + real"
  rgb2hsv :: "pixel \<Rightarrow> pixel"
  rgb2gray :: "pixel \<Rightarrow> 8 word"
  sobel_x :: "8 word image \<Rightarrow> nat \<Rightarrow> nat \<Rightarrow> real"
  sobel_y :: "8 word image \<Rightarrow> nat \<Rightarrow> nat \<Rightarrow> real"
  resize_px :: "pixel image \<Rightarrow> nat \<Rightarrow> nat \<Rightarrow> pixel"

text \<open>\<^verbatim>\<open>for item in results\<close>: a list gives its elements, a dict its keys, a str its characters.\<close>

definition py_iter :: "json \<Rightarrow> error + json list" where
  "py_iter v =
     (case v of
        JArr xs \<Rightarrow> Inr xs
      | JObj kvs \<Rightarrow> Inr (map (\<lambda>kv. JStr (fst kv)) kvs)
      | JStr s \<Rightarrow> Inr (map (\<lambda>c. JStr [c]) s)
      | _ \<Rightarrow> Inl TypeError)"

text \<open>\<^verbatim>\<open>key in item\<close> for a str \<open>key\<close>.\<close>

definition py_in :: "string \<Rightarrow> json \<Rightarrow> error + bool" where
  "py_in key item =
     (case item of
        JObj kvs \<Rightarrow> Inr (key \<in> set (map fst kvs))
      | JStr s \<Rightarrow> Inr (str_contains s key)
      | JArr xs \<Rightarrow> Inr (JStr key \<in> set xs)
      | _ \<Rightarrow> Inl TypeError)"

text \<open>\<^verbatim>\<open>item[key]\<close> for a str \<open>key\<close>: only a dict can be indexed by a str.\<close>

definition py_subscript :: "json \<Rightarrow> string \<Rightarrow> error + json" where
  "py_subscript item key =
     (case item of
        JObj kvs \<Rightarrow> (case map_of kvs key of None \<Rightarrow> Inl KeyError | Some v \<Rightarrow> Inr v)
      | _ \<Rightarrow> Inl TypeError)"

text \<open>
  \<^verbatim>\<open>float(v)\<close>: a float is returned as it is, an int and a str are converted and may
  raise, a bool counts as 0 or 1, anything else is a \<^verbatim>\<open>TypeError\<close>.
\<close>

definition py_float :: "lib \<Rightarrow> json \<Rightarrow> error + real" where
  "py_float L v =
     (case v of
        JFloat x \<Rightarrow> Inr x
      | JInt n \<Rightarrow> float_of_int L n
      | JBool b \<Rightarrow> Inr (if b then 1 else 0)
      | JStr s \<Rightarrow> float_of_str L s
      | _ \<Rightarrow> Inl TypeError)"

text \<open>
  One turn of the loop over the items: \<open>Inr None\<close> when the item is skipped,
  \<open>Inr (Some p)\<close> when \<open>p\<close> is appended.
\<close>

definition item_prediction :: "lib \<Rightarrow> json \<Rightarrow> error + prediction option" where
  "item_prediction L item =
     (case py_in ''prediction'' item of
        Inl e \<Rightarrow> Inl e
      | Inr False \<Rightarrow> Inr None
      | Inr True \<Rightarrow>
          (case py_in ''confidence'' item of
             Inl e \<Rightarrow> Inl e
           | Inr False \<Rightarrow> Inr None
           | Inr True \<Rightarrow>
               (case py_subscript item ''prediction'' of
                  Inl e \<Rightarrow> Inl e
                | Inr p \<Rightarrow>
                    (case py_subscript item ''confidence'' of
                       Inl e \<Rightarrow> Inl e
                     | Inr c \<Rightarrow>
                         (case py_float L c of
                            Inl e \<Rightarrow> Inl e
                          | Inr x \<Rightarrow> Inr (Some (p, x)))))))"

fun collect_predictions :: "lib \<Rightarrow> json list \<Rightarrow> prediction list \<Rightarrow> error + prediction list" where
  "collect_predictions L [] loaded_predictions = Inr loaded_predictions"
| "collect_predictions L (item # items) loaded_predictions =
     (case item_prediction L item of
        Inl e \<Rightarrow> Inl e
      | Inr None \<Rightarrow> collect_predictions L items loaded_predictions
      | Inr (Some p) \<Rightarrow> collect_predictions L items (loaded_predictions @ [p]))"

text \<open>The body of the \<^verbatim>\<open>try\<close> for one existing candidate file.\<close>

definition load_file :: "lib \<Rightarrow> error + json \<Rightarrow> error + prediction list" where
  "load_file L content =
     (case content of
        Inl e \<Rightarrow> Inl e
      | Inr results \<Rightarrow>
          (case py_iter results of
             Inl e \<Rightarrow> Inl e
           | Inr items \<Rightarrow> collect_predictions L items []))"

definition default_predictions :: "prediction list" where
  "default_predictions =
     [(JStr ''Apple_Scab'', 0.904),
      (JStr ''Tomato_Late_blight'', 0.856),
      (JStr ''Potato_Healthy'', 0.736),
      (JStr ''Grape_Black_rot'', 0.892),
      (JStr ''Corn_Common_rust'', 0.817)]"

text \<open>\<^verbatim>\<open>os.path.join\<close> with the POSIX separator.\<close>

definition possible_locations :: "string list" where
  "possible_locations =
     [''attached_assets/detection_results.json'',
      ''static/data/detection_results.json'',
      ''detection_results.json'']"

text \<open>
  The loop over the candidate locations, with \<open>sample_predictions\<close> as it stands when
  the loop reaches the remaining locations. A file that loads at least one prediction
  ends the loop (\<^verbatim>\<open>break\<close>); a missing file, an exception (caught and logged) or an empty
  result moves on to the next location.
\<close>

fun load_loop :: "lib \<Rightarrow> env \<Rightarrow> string list \<Rightarrow> prediction list \<Rightarrow> prediction list" where
  "load_loop L E [] sample_predictions = sample_predictions"
| "load_loop L E (detection_results_file # rest) sample_predictions =
     (case files E detection_results_file of
        None \<Rightarrow> load_loop L E rest sample_predictions
      | Some content \<Rightarrow>
          (case load_file L content of
             Inl e \<Rightarrow> load_loop L E rest sample_predictions
           | Inr loaded_predictions \<Rightarrow>
               if loaded_predictions \<noteq> [] then loaded_predictions
               else load_loop L E rest sample_predictions))"

definition load_sample_predictions :: "lib \<Rightarrow> env \<Rightarrow> prediction list" where
  "load_sample_predictions L E = load_loop L E possible_locations default_predictions"

subsection \<open>Images and preprocessing\<close>

text \<open>
  An image is a numpy array of \<open>height\<close> rows and \<open>width\<close> columns; \<open>px img i j\<close> is
  the entry (one value, or the three channels of a colour pixel) at row \<open>i\<close> and column
  \<open>j\<close>. Only the entries inside the shape are read.
\<close>

definition pixels :: "'a image \<Rightarrow> 'a list" where
  "pixels img = concat (map (\<lambda>i. map (\<lambda>j. px img i j) [0..<width img]) [0..<height img])"

definition img_empty :: "'a image \<Rightarrow> bool" where
  "img_empty img = (height img = 0 \<or> width img = 0)"

text \<open>
  \<^verbatim>\<open>cv2.cvtColor\<close> converts pixel by pixel and keeps the shape; OpenCV refuses an empty
  input with \<^verbatim>\<open>cv2.error\<close>.
\<close>

definition cvtColor :: "('a \<Rightarrow> 'b) \<Rightarrow> 'a image \<Rightarrow> error + 'b image" where
  "cvtColor conv img =
     (if img_empty img then Inl CvError
      else Inr \<lparr>height = height img, width = width img, px = (\<lambda>i j. conv (px img i j))\<rparr>)"

definition bgr2rgb :: "pixel \<Rightarrow> pixel" where
  "bgr2rgb p = (case p of (b, g, r) \<Rightarrow> (r, g, b))"

text \<open>\<^verbatim>\<open>cv2.resize(img, (w, h))\<close>: an image of \<open>h\<close> rows and \<open>w\<close> columns.\<close>

definition resize :: "lib \<Rightarrow> pixel image \<Rightarrow> nat \<Rightarrow> nat \<Rightarrow> error + pixel image" where
  "resize L img w h =
     (if img_empty img \<or> w = 0 \<or> h = 0 then Inl CvError
      else Inr \<lparr>height = h, width = w, px = resize_px L img\<rparr>)"

text \<open>
  \<^verbatim>\<open>preprocess_image(image_path)\<close>. Its \<^verbatim>\<open>except\<close> clause logs and raises the same
  exception again, so an error of the body is the error of the function.
\<close>

definition preprocess_image :: "lib \<Rightarrow> env \<Rightarrow> string \<Rightarrow> error + pixel image" where
  "preprocess_image L E image_path =
     (case imread E image_path of
        None \<Rightarrow> Inl ValueError
      | Some img \<Rightarrow>
          (case resize L img 224 224 of
             Inl e \<Rightarrow> Inl e
           | Inr img' \<Rightarrow> cvtColor bgr2rgb img'))"

subsection \<open>Feature extraction\<close>

definition DISEASE_INDICATORS :: "(string \<times> pixel \<times> pixel) list" where
  "DISEASE_INDICATORS =
     [(''Brown spots'', (10, 100, 20), (20, 255, 200)),
      (''Yellow spots'', (20, 100, 100), (30, 255, 255)),
      (''Black spots'', (0, 0, 0), (180, 255, 30)),
      (''White powder'', (0, 0, 200), (180, 30, 255)),
      (''Rotting'', (0, 50, 10), (15, 255, 100))]"

text \<open>
  \<^verbatim>\<open>cv2.inRange\<close>: 255 where every channel lies within the bounds (inclusive, unsigned),
  0 elsewhere.
\<close>

definition inRange :: "pixel image \<Rightarrow> pixel \<Rightarrow> pixel \<Rightarrow> 8 word image" where
  "inRange hsv lower upper =
     \<lparr>height = height hsv, width = width hsv,
      px = (\<lambda>i j.
        case (px hsv i j, lower, upper) of
          ((a, b, c), (la, lb, lc), (ua, ub, uc)) \<Rightarrow>
            if la \<le> a \<and> a \<le> ua \<and> lb \<le> b \<and> b \<le> ub \<and> lc \<le> c \<and> c \<le> uc then 255 else 0)\<rparr>"

text \<open>\<^verbatim>\<open>hsv[:, :, i]\<close>, flattened, as numbers.\<close>

definition channel :: "nat \<Rightarrow> pixel image \<Rightarrow> real list" where
  "channel i hsv =
     map (\<lambda>p. case p of (a, b, c) \<Rightarrow> real (unat (if i = 0 then a else if i = 1 then b else c)))
       (pixels hsv)"

definition extract_color_features :: "lib \<Rightarrow> pixel image \<Rightarrow> error + real list" where
  "extract_color_features L img =
     (case cvtColor (rgb2hsv L) img of
        Inl e \<Rightarrow> Inl e
      | Inr hsv \<Rightarrow>
          Inr (map (\<lambda>(indicator, lower, upper).
                     let mask = inRange hsv lower upper;
                         ratio = real (length (filter (\<lambda>m. m > 0) (pixels mask)))
                                   / real (height img * width img)
                     in ratio) DISEASE_INDICATORS
               @ map (\<lambda>i. np_mean (channel i hsv) / 255) [0, 1, 2]))"

text \<open>
  The numpy reductions of the texture features, each over all elements of a non-empty
  array: the maximum, the (population) standard deviation and the percentile with
  numpy's default linear interpolation between the two nearest ranks.
\<close>

definition np_max :: "real list \<Rightarrow> real" where
  "np_max xs = Max (set xs)"

definition np_std :: "real list \<Rightarrow> real" where
  "np_std xs = sqrt (np_mean (map (\<lambda>x. \<bar>x - np_mean xs\<bar>\<^sup>2) xs))"

definition np_percentile :: "real list \<Rightarrow> real \<Rightarrow> real" where
  "np_percentile xs q =
     (let s = sort xs;
          n = length s;
          pos = q / 100 * real (n - 1);
          lo = nat \<lfloor>pos\<rfloor>;
          hi = min (lo + 1) (n - 1)
      in s ! lo + (pos - real lo) * (s ! hi - s ! lo))"

definition extract_texture_features :: "lib \<Rightarrow> pixel image \<Rightarrow> error + real list" where
  "extract_texture_features L img =
     (case cvtColor (rgb2gray L) img of
        Inl e \<Rightarrow> Inl e
      | Inr gray \<Rightarrow>
          (let sobelx = sobel_x L gray;
               sobely = sobel_y L gray;
               gradient_mag = pixels \<lparr>height = height gray, width = width gray,
                                 px = (\<lambda>i j. sqrt ((sobelx i j)\<^sup>2 + (sobely i j)\<^sup>2))\<rparr>;
               gradient_mag' = (if np_max gradient_mag > 0
                                then map (\<lambda>g. g / np_max gradient_mag) gradient_mag
                                else gradient_mag)
           in Inr [np_mean gradient_mag', np_std gradient_mag', np_percentile gradient_mag' 90]))"

subsection \<open>Detection\<close>

text \<open>
  The body of the \<^verbatim>\<open>try\<close> of \<^verbatim>\<open>detect_disease\<close>. The result carries the generator as
  it stands when the body returns or raises. A label is a Python value: a str on the
  classifier path, whatever the sample table holds on the substitution path.
\<close>

definition detect_try :: "lib \<Rightarrow> env \<Rightarrow> string \<Rightarrow> rng \<Rightarrow> (error + prediction) \<times> rng" where
  "detect_try L E image_path r =
     on_value (preprocess_image L E image_path) r (\<lambda>img.
     on_value (extract_color_features L img) r (\<lambda>color_features.
     on_value (extract_texture_features L img) r (\<lambda>texture_features.
     let features = color_features @ texture_features;
         sample_predictions = load_sample_predictions L E;
         (u, r1) = random_random r;
         use_sample = (u < 0.3)
     in if use_sample \<and> sample_predictions \<noteq> [] then random_choice sample_predictions r1
        else (case simple_disease_classifier features r1 of
                (Inl e, r2) \<Rightarrow> (Inl e, r2)
              | (Inr predicted_class_index, r2) \<Rightarrow>
                  on_value (getitem CLASSES predicted_class_index) r2 (\<lambda>predicted_class.
                  let (confidence, r3) =
                        (if str_contains predicted_class ''Healthy''
                         then random_uniform 0.7 0.95 r2
                         else random_uniform 0.6 0.9 r2)
                  in (Inr (JStr predicted_class, confidence), r3))))))"

text \<open>
  \<^verbatim>\<open>detect_disease(image_path)\<close>: the \<^verbatim>\<open>except Exception\<close> clause answers every
  error of the body with a random entry of the sample table.
\<close>

definition detect_disease :: "lib \<Rightarrow> env \<Rightarrow> string \<Rightarrow> rng \<Rightarrow> (error + prediction) \<times> rng" where
  "detect_disease L E image_path r =
     (case detect_try L E image_path r of
        (Inr result, r') \<Rightarrow> (Inr result, r')
      | (Inl e, r') \<Rightarrow> random_choice (load_sample_predictions L E) r')"

text \<open>
  The two stages of the body of the \<^verbatim>\<open>try\<close>, named: the features that reach the
  classifier (preprocessing, the two sub-extractions, the concatenation) and the decision
  taken on them. \<open>detect_try\<close> is the one followed by the other (lemma
  \<open>detect_try_split\<close>).
\<close>

definition detection_features :: "lib \<Rightarrow> env \<Rightarrow> string \<Rightarrow> error + real list" where
  "detection_features L E image_path =
     (case preprocess_image L E image_path of
        Inl e \<Rightarrow> Inl e
      | Inr img \<Rightarrow>
          (case extract_color_features L img of
             Inl e \<Rightarrow> Inl e
           | Inr color_features \<Rightarrow>
               (case extract_texture_features L img of
                  Inl e \<Rightarrow> Inl e
                | Inr texture_features \<Rightarrow> Inr (color_features @ texture_features))))"

definition decide :: "lib \<Rightarrow> env \<Rightarrow> real list \<Rightarrow> rng \<Rightarrow> (error + prediction) \<times> rng" where
  "decide L E features r =
     (let sample_predictions = load_sample_predictions L E;
          (u, r1) = random_random r;
          use_sample = (u < 0.3)
      in if use_sample \<and> sample_predictions \<noteq> [] then random_choice sample_predictions r1
         else (case simple_disease_classifier features r1 of
                 (Inl e, r2) \<Rightarrow> (Inl e, r2)
               | (Inr predicted_class_index, r2) \<Rightarrow>
                   on_value (getitem CLASSES predicted_class_index) r2 (\<lambda>predicted_class.
                   let (confidence, r3) =
                         (if str_contains predicted_class ''Healthy''
                          then random_uniform 0.7 0.95 r2
                          else random_uniform 0.6 0.9 r2)
                   in (Inr (JStr predicted_class, confidence), r3))))"

subsection \<open>Treatment advice\<close>

definition nl :: string where
  "nl = [CHR 0x0A]"

text \<open>
  What \<^verbatim>\<open>model.generate_content(prompt)\<close> returns: whether the response object is
  truthy, and what reading \<^verbatim>\<open>response.text\<close> gives (the accessor may raise).
\<close>

record response =
  truthy :: bool
  text_of :: "error + string"

text \<open>The prompt, an f-string with the cleaned disease name in it.\<close>

definition prompt_for :: "string \<Rightarrow> string" where
  "prompt_for disease =
     concat
      [nl,
       ''        You are a plant disease expert. Provide treatment recommendations for plants affected by '' @ disease @ ''.'' @ nl,
       ''        '' @ nl,
       ''        Follow this structure in your response:'' @ nl,
       ''        1. Brief description of the disease'' @ nl,
       ''        2. Symptoms'' @ nl,
       ''        3. Treatment recommendations (organic and chemical options)'' @ nl,
       ''        4. Prevention tips'' @ nl,
       ''        '' @ nl,
       ''        Keep your response informative but concise (less than 500 words).'' @ nl,
       ''        '']"

text \<open>The text of the \<^verbatim>\<open>except\<close> clause, an f-string with the cleaned disease name in it.\<close>

definition fallback_text :: "string \<Rightarrow> string" where
  "fallback_text disease_name =
     concat
      [nl,
       ''        # Treatment Recommendations for '' @ str_replace CHR ''_'' CHR '' '' disease_name @ nl,
       nl,
       ''        ## Description'' @ nl,
       ''        This is a common plant disease that affects crops and ornamental plants.'' @ nl,
       nl,
       ''        ## Symptoms'' @ nl,
       ''        - Discoloration of leaves'' @ nl,
       ''        - Spots or lesions'' @ nl,
       ''        - Wilting or stunted growth'' @ nl,
       nl,
       ''        ## Treatment'' @ nl,
       ''        - Remove affected plant parts'' @ nl,
       ''        - Apply appropriate fungicide or insecticide'' @ nl,
       ''        - Ensure proper plant nutrition'' @ nl,
       nl,
       ''        ## Prevention'' @ nl,
       ''        - Rotate crops'' @ nl,
       ''        - Use disease-resistant varieties'' @ nl,
       ''        - Maintain good air circulation'' @ nl,
       ''        - Water at the base of plants to keep foliage dry'' @ nl,
       nl,
       ''        *Note: These are general recommendations. For specific treatment, please consult with a local agricultural extension service.*'' @ nl,
       ''        '']"

text \<open>
  \<^verbatim>\<open>get_treatment_recommendation(disease_name)\<close>. The parameter \<open>generate_content\<close> is
  the external call (building the model object \<^verbatim>\<open>gemini-1.5-pro\<close> with the configured
  credential and sending the prompt): an exception or a response. Every exception of the
  \<^verbatim>\<open>try\<close> block is caught; the handler only formats a string, which cannot raise, so
  the function returns a str on every path.
\<close>

definition get_treatment_recommendation :: "(string \<Rightarrow> error + response) \<Rightarrow> string \<Rightarrow> string" where
  "get_treatment_recommendation generate_content disease_name =
     (let disease = str_replace CHR ''_'' CHR '' '' disease_name;
          prompt = prompt_for disease
      in case generate_content prompt of
           Inl e \<Rightarrow> fallback_text disease_name
         | Inr response \<Rightarrow>
             if truthy response then
               (case text_of response of
                  Inl e \<Rightarrow> fallback_text disease_name
                | Inr t \<Rightarrow> t)
             else ''Unable to generate treatment recommendations at this time.'')"

subsection \<open>What one candidate location contributes\<close>

text \<open>
  \<open>yields L E f\<close> is \<open>Some t\<close> when the file \<open>f\<close> exists, loads without an exception
  and gives the non-empty list \<open>t\<close> of predictions; it is \<open>None\<close> when the file is
  missing, when opening, decoding, iterating or converting raises (a confidence that
  \<^verbatim>\<open>float\<close> rejects, an int too large for a double included), and when no item has both
  fields.
\<close>

definition yields :: "lib \<Rightarrow> env \<Rightarrow> string \<Rightarrow> prediction list option" where
  "yields L E f =
     (case files E f of
        None \<Rightarrow> None
      | Some content \<Rightarrow>
          (case load_file L content of
             Inl e \<Rightarrow> None
           | Inr loaded \<Rightarrow> if loaded = [] then None else Some loaded))"

subsection \<open>Identical arrays\<close>



subsection \<open>Concrete inputs\<close>

text \<open>
  A library whose \<^verbatim>\<open>float\<close> rejects every str and every int that overflows a double
  (and does not round the others), whose colour conversions keep the channels (the grey
  value is the first channel), whose derivatives vanish and whose resize repeats the top
  left pixel.
\<close>

definition example_lib :: lib where
  "example_lib =
     \<lparr>float_of_str = (\<lambda>s. Inl ValueError),
      float_of_int = (\<lambda>n. if \<bar>n\<bar> < 2 ^ 1024 - 2 ^ 970 then Inr (real_of_int n)
                            else Inl OverflowError),
      rgb2hsv = (\<lambda>p. p), rgb2gray = (\<lambda>p. fst p),
      sobel_x = (\<lambda>g i j. 0), sobel_y = (\<lambda>g i j. 0), resize_px = (\<lambda>img i j. px img 0 0)\<rparr>"

text \<open>
  A world with two sample files and no image: the file at the first location exists and
  is not valid JSON, the file at the second location holds one prediction.
\<close>

definition two_files_env :: env where
  "two_files_env =
     \<lparr>files = (\<lambda>p.
        if p = ''attached_assets/detection_results.json'' then Some (Inl JSONDecodeError)
        else if p = ''static/data/detection_results.json''
          then Some (Inr (JArr [JObj [(''prediction'', JStr ''Tomato_Early_blight''),
                                      (''confidence'', JFloat 0.5)]]))
        else None),
      imread = (\<lambda>p. None)\<rparr>"

text \<open>
  A world whose only sample file, at the first location, holds one entry with an int
  confidence too large for a double.
\<close>

definition overflow_env :: env where
  "overflow_env =
     \<lparr>files = (\<lambda>p.
        if p = ''attached_assets/detection_results.json''
          then Some (Inr (JArr [JObj [(''prediction'', JStr ''Corn_Healthy''),
                                      (''confidence'', JInt (10 ^ 400))]]))
        else None),
      imread = (\<lambda>p. None)\<rparr>"

text \<open>An external call that fails, as it does when no credential is configured.\<close>

definition failing_call :: "string \<Rightarrow> error + response" where
  "failing_call prompt = Inl ApiError"

text \<open>An image of one pixel.\<close>

definition one_pixel_image :: "pixel image" where
  "one_pixel_image = \<lparr>height = 1, width = 1, px = (\<lambda>i j. (10, 120, 50))\<rparr>"

text \<open>A world without sample files, with a one-pixel image at \<^verbatim>\<open>leaf.jpg\<close>.\<close>

definition leaf_env :: env where
  "leaf_env =
     \<lparr>files = (\<lambda>p. None),
      imread = (\<lambda>p. if p = ''leaf.jpg'' then Some one_pixel_image else None)\<rparr>"

text \<open>
  A world whose third candidate location holds confidences written as percentages and a
  label spelled differently from \<^verbatim>\<open>CLASSES\<close>, with the same image.
\<close>

definition percent_file_env :: env where
  "percent_file_env =
     \<lparr>files = (\<lambda>p.
        if p = ''detection_results.json''
          then Some (Inr (JArr [JObj [(''prediction'', JStr ''Tomato_Early_Blight''),
                                      (''confidence'', JFloat 95.2)]]))
        else None),
      imread = (\<lambda>p. if p = ''leaf.jpg'' then Some one_pixel_image else None)\<rparr>"

text \<open>A generator whose every float is \<open>u\<close> and whose every raw draw is \<open>d\<close>.\<close>

definition const_rng :: "real \<Rightarrow> nat \<Rightarrow> rng" where
  "const_rng u d = \<lparr>floats = (\<lambda>k. u), draws = (\<lambda>k. d), fpos = 0, ipos = 0\<rparr>"




subsection \<open>Properties of the classifier\<close>

lemma length_CLASSES: "length CLASSES = 39"
  by (simp add: CLASSES_def)

lemma getitem_take8:
  "length fs = 11 \<Longrightarrow> n < 8 \<Longrightarrow> getitem (take 8 fs) (int n) = Inr (fs ! n)"
  by (simp add: getitem_def)

lemma getitem_drop8:
  "length fs = 11 \<Longrightarrow> n < 3 \<Longrightarrow> getitem (drop 8 fs) (int n) = Inr (fs ! (8 + n))"
  by (simp add: getitem_def)

text \<open>On a vector of 11 features no index is out of range, and the rules read as follows.\<close>

lemma classifier_rules:
  assumes len: "length fs = 11"
  shows "simple_disease_classifier fs r =
    (if fs ! 0 > 0.15 \<and> fs ! 9 > 0.2
       then (Inr (if floats r (fpos r) > 0.5 then 1 else 0), r\<lparr>fpos := Suc (fpos r)\<rparr>)
     else if fs ! 1 > 0.2 then (Inr 30, r)
     else if fs ! 3 > 0.1 then (Inr 6, r)
     else if fs ! 2 > 0.12 then (Inr 31, r)
     else if np_mean (take 5 fs) < 0.1 \<and> fs ! 5 > 0.4 then random_choice healthy_indices r
     else random_randint 0 38 r)"
proof -
  have c0: "getitem (take 8 fs) 0 = Inr (fs ! 0)"
    using getitem_take8 [OF len, of 0] by simp
  have c1: "getitem (take 8 fs) 1 = Inr (fs ! 1)"
    using getitem_take8 [OF len, of 1] by simp
  have c2: "getitem (take 8 fs) 2 = Inr (fs ! 2)"
    using getitem_take8 [OF len, of 2] by simp
  have c3: "getitem (take 8 fs) 3 = Inr (fs ! 3)"
    using getitem_take8 [OF len, of 3] by simp
  have c5: "getitem (take 8 fs) 5 = Inr (fs ! 5)"
    using getitem_take8 [OF len, of 5] by simp
  have t1: "getitem (drop 8 fs) 1 = Inr (fs ! 9)"
    using getitem_drop8 [OF len, of 1] by simp
  have ne: "fs \<noteq> []"
    using len by auto
  show ?thesis
    unfolding simple_disease_classifier_def Let_def
    by (simp add: c0 c1 c2 c3 c5 t1 ne on_value_def random_random_def length_CLASSES)
qed

lemma random_choice_mem:
  "seq \<noteq> [] \<Longrightarrow>
   \<exists>x. random_choice seq r = (Inr x, r\<lparr>ipos := Suc (ipos r)\<rparr>) \<and> x \<in> set seq"
  by (simp add: random_choice_def randbelow_def)

lemma random_randint_range:
  assumes "a \<le> b"
  shows "\<exists>k. random_randint a b r = (Inr k, r\<lparr>ipos := Suc (ipos r)\<rparr>) \<and> a \<le> k \<and> k \<le> b"
proof -
  let ?n = "nat (b - a + 1)"
  have pos: "0 < ?n" using assms by simp
  then have "draws r (ipos r) mod ?n < ?n" by simp
  then have "int (draws r (ipos r) mod ?n) < b - a + 1" using assms by linarith
  then show ?thesis using assms
    by (simp add: random_randint_def randbelow_def)
qed

lemma healthy_indices_range: "x \<in> set healthy_indices \<Longrightarrow> 0 \<le> x \<and> x \<le> 38"
  by (auto simp add: healthy_indices_def)

lemma getitem_CLASSES: "0 \<le> i \<Longrightarrow> i \<le> 38 \<Longrightarrow> getitem CLASSES i = Inr (CLASSES ! nat i)"
  by (simp add: getitem_def length_CLASSES)

lemma classifier_returns:
  assumes len: "length features = 11"
  shows "\<exists>i r'. simple_disease_classifier features r = (Inr i, r') \<and> 0 \<le> i \<and> i \<le> 38 \<and>
           floats r' = floats r"
proof -
  obtain x where x: "random_choice healthy_indices r = (Inr x, r\<lparr>ipos := Suc (ipos r)\<rparr>)"
      "x \<in> set healthy_indices"
    using random_choice_mem [of healthy_indices r] by (auto simp add: healthy_indices_def)
  obtain k where k: "random_randint 0 38 r = (Inr k, r\<lparr>ipos := Suc (ipos r)\<rparr>)"
      "0 \<le> k" "k \<le> 38"
    using random_randint_range [of 0 38 r] by auto
  show ?thesis
    unfolding classifier_rules [OF len]
    using x k healthy_indices_range [OF x(2)] by simp
qed

text \<open>
  Claim C10. On every vector of 11 features the classifier returns (it raises nothing),
  and the integer it returns lies between 0 and \<^verbatim>\<open>len(CLASSES) - 1\<close>, so that the lookup
  \<^verbatim>\<open>CLASSES[predicted_class_index]\<close> of \<^verbatim>\<open>detect_disease\<close> succeeds. The literal index 38
  of the healthy branch is in range because the list has 39 entries.
\<close>

theorem classifier_index_valid:
  assumes len: "length features = 11"
  shows "\<exists>i r'. simple_disease_classifier features r = (Inr i, r') \<and>
           0 \<le> i \<and> i \<le> int (length CLASSES) - 1 \<and>
           getitem CLASSES i = Inr (CLASSES ! nat i)"
proof -
  obtain i r' where *: "simple_disease_classifier features r = (Inr i, r')" "0 \<le> i" "i \<le> 38"
    using classifier_returns [OF len] by blast
  then show ?thesis
    using getitem_CLASSES [of i] by (simp add: length_CLASSES)
qed

theorem classifier_index_valid_witness:
  "length [0, 0, 0, 0, 0, 0.5, 0.5, 0.5, 0, 0, 0 :: real] = 11 \<and>
   (\<exists>i r'. simple_disease_classifier [0, 0, 0, 0, 0, 0.5, 0.5, 0.5, 0, 0, 0]
       \<lparr>floats = (\<lambda>k. 0), draws = (\<lambda>k. 11), fpos = 0, ipos = 0\<rparr> = (Inr i, r') \<and>
       0 \<le> i \<and> i \<le> int (length CLASSES) - 1 \<and> getitem CLASSES i = Inr (CLASSES ! nat i))"
  using classifier_index_valid [of "[0, 0, 0, 0, 0, 0.5, 0.5, 0.5, 0, 0, 0]"
      "\<lparr>floats = (\<lambda>k. 0), draws = (\<lambda>k. 11), fpos = 0, ipos = 0\<rparr>"]
  by simp

text \<open>The healthy branch does reach its last literal, 38, the index of the last label.\<close>

lemma healthy_branch_reaches_38:
  "simple_disease_classifier [0, 0, 0, 0, 0, 0.5, 0.5, 0.5, 0, 0, 0]
       \<lparr>floats = (\<lambda>k. 0), draws = (\<lambda>k. 11), fpos = 0, ipos = 0\<rparr>
    = (Inr 38, \<lparr>floats = (\<lambda>k. 0), draws = (\<lambda>k. 11), fpos = 0, ipos = 1\<rparr>) \<and>
   getitem CLASSES 38 = Inr ''Tomato_Healthy''"
  by (simp add: classifier_rules random_choice_def randbelow_def healthy_indices_def
      np_mean_def getitem_def CLASSES_def)

text \<open>
  Claim C4. On a vector of 11 features whose first colour feature exceeds 0.15 and whose
  texture standard deviation (the second of the three texture features, at position 9)
  exceeds 0.2, the classifier resolves by rule 1: it returns index 1 (Apple_Black_rot)
  or 0 (Apple_Apple_scab), whatever the other features are, the yellow ratio of rule 2
  included.
\<close>

theorem rule1_wins:
  assumes "length features = 11" and "features ! 0 > 0.15" and "features ! 9 > 0.2"
  shows "simple_disease_classifier features r =
           (Inr (if floats r (fpos r) > 0.5 then 1 else 0), r\<lparr>fpos := Suc (fpos r)\<rparr>) \<and>
         getitem CLASSES 1 = Inr ''Apple_Black_rot'' \<and>
         getitem CLASSES 0 = Inr ''Apple_Apple_scab''"
  using assms by (simp add: classifier_rules getitem_def CLASSES_def)

theorem rule1_wins_witness:
  "length [0.2, 0.3, 0, 0, 0, 0.5, 0.5, 0.5, 0.1, 0.3, 0.2 :: real] = 11 \<and>
   [0.2, 0.3, 0, 0, 0, 0.5, 0.5, 0.5, 0.1, 0.3, 0.2 :: real] ! 0 > 0.15 \<and>
   [0.2, 0.3, 0, 0, 0, 0.5, 0.5, 0.5, 0.1, 0.3, 0.2 :: real] ! 9 > 0.2 \<and>
   [0.2, 0.3, 0, 0, 0, 0.5, 0.5, 0.5, 0.1, 0.3, 0.2 :: real] ! 1 > 0.2 \<and>
   simple_disease_classifier [0.2, 0.3, 0, 0, 0, 0.5, 0.5, 0.5, 0.1, 0.3, 0.2]
       \<lparr>floats = (\<lambda>k. 0.75), draws = (\<lambda>k. 0), fpos = 0, ipos = 0\<rparr>
     = (Inr 1, \<lparr>floats = (\<lambda>k. 0.75), draws = (\<lambda>k. 0), fpos = 1, ipos = 0\<rparr>)"
  using rule1_wins [of "[0.2, 0.3, 0, 0, 0, 0.5, 0.5, 0.5, 0.1, 0.3, 0.2]"
      "\<lparr>floats = (\<lambda>k. 0.75), draws = (\<lambda>k. 0), fpos = 0, ipos = 0\<rparr>"]
  by simp

lemma rule6_randint:
  assumes "length features = 11"
    and "\<not> (features ! 0 > 0.15 \<and> features ! 9 > 0.2)"
    and "\<not> features ! 1 > 0.2" and "\<not> features ! 3 > 0.1" and "\<not> features ! 2 > 0.12"
    and "\<not> (np_mean (take 5 features) < 0.1 \<and> features ! 5 > 0.4)"
  shows "simple_disease_classifier features r = random_randint 0 38 r"
  unfolding classifier_rules [OF assms(1)] using assms(2-) by presburger

lemma randint_0_38:
  "random_randint 0 38 r = (Inr (int (draws r (ipos r) mod 39)), r\<lparr>ipos := Suc (ipos r)\<rparr>)"
  by (simp add: random_randint_def randbelow_def)

text \<open>
  Claim C3, as the source has it: the list has 39 labels, not 38. The claim as stated
  fails on the count.
\<close>

theorem CLASSES_not_38: "length CLASSES \<noteq> 38"
  by (simp add: CLASSES_def)

text \<open>
  Claim C3, amended. \<^verbatim>\<open>CLASSES\<close> holds exactly 39 pairwise different labels. When none of
  the rules 1 to 5 matches a vector of 11 features, the final rule returns the bounded
  draw \<^verbatim>\<open>randint(0, len(CLASSES) - 1)\<close>: an index of the full list, and each of the 39
  positions is returned for some state of the generator. (That the draw is uniform is a
  property of \<^verbatim>\<open>random\<close>, outside the embedding.)
\<close>

theorem fallback_rule_full_enumeration:
  "length CLASSES = 39 \<and> distinct CLASSES \<and>
   (length features = 11 \<longrightarrow>
    \<not> (features ! 0 > 0.15 \<and> features ! 9 > 0.2) \<longrightarrow>
    \<not> features ! 1 > 0.2 \<longrightarrow> \<not> features ! 3 > 0.1 \<longrightarrow> \<not> features ! 2 > 0.12 \<longrightarrow>
    \<not> (np_mean (take 5 features) < 0.1 \<and> features ! 5 > 0.4) \<longrightarrow>
    simple_disease_classifier features r =
      (Inr (int (draws r (ipos r) mod length CLASSES)), r\<lparr>ipos := Suc (ipos r)\<rparr>) \<and>
    (\<forall>k < length CLASSES.
       fst (simple_disease_classifier features (r\<lparr>draws := (\<lambda>n. k)\<rparr>)) = Inr (int k)))"
proof (intro conjI impI allI)
  show "length CLASSES = 39" by (rule length_CLASSES)
  show "distinct CLASSES" by (simp add: CLASSES_def)
next
  assume h: "length features = 11"
    "\<not> (features ! 0 > 0.15 \<and> features ! 9 > 0.2)"
    "\<not> features ! 1 > 0.2" "\<not> features ! 3 > 0.1" "\<not> features ! 2 > 0.12"
    "\<not> (np_mean (take 5 features) < 0.1 \<and> features ! 5 > 0.4)"
  show "simple_disease_classifier features r =
      (Inr (int (draws r (ipos r) mod length CLASSES)), r\<lparr>ipos := Suc (ipos r)\<rparr>)"
    by (simp add: rule6_randint [OF h] randint_0_38 length_CLASSES)
  fix k assume "k < length CLASSES"
  then show "fst (simple_disease_classifier features (r\<lparr>draws := (\<lambda>n. k)\<rparr>)) = Inr (int k)"
    by (simp add: rule6_randint [OF h] randint_0_38 length_CLASSES)
qed

theorem fallback_rule_full_enumeration_witness:
  "length (replicate 11 (0::real)) = 11 \<and>
   simple_disease_classifier (replicate 11 0)
       \<lparr>floats = (\<lambda>k. 0), draws = (\<lambda>k. 77), fpos = 0, ipos = 0\<rparr>
     = (Inr 38, \<lparr>floats = (\<lambda>k. 0), draws = (\<lambda>k. 77), fpos = 0, ipos = 1\<rparr>)"
  using fallback_rule_full_enumeration [of "replicate 11 0"
      "\<lparr>floats = (\<lambda>k. 0), draws = (\<lambda>k. 77), fpos = 0, ipos = 0\<rparr>"]
  by (simp add: length_CLASSES np_mean_def)

subsection \<open>Properties of the sample table\<close>

lemma load_loop_step:
  "load_loop L E (f # rest) d =
     (case yields L E f of None \<Rightarrow> load_loop L E rest d | Some t \<Rightarrow> t)"
  by (simp add: yields_def split: option.splits sum.splits)

lemma load_loop_none:
  "\<forall>f \<in> set fs. yields L E f = None \<Longrightarrow> load_loop L E fs d = d"
  by (induction fs) (simp_all add: load_loop_step del: load_loop.simps(2))

lemma load_loop_first:
  "\<forall>g \<in> set ps. yields L E g = None \<Longrightarrow> yields L E f = Some t \<Longrightarrow>
   load_loop L E (ps @ f # ss) d = t"
  by (induction ps) (simp_all add: load_loop_step del: load_loop.simps(2))

lemma load_loop_nonempty: "d \<noteq> [] \<Longrightarrow> load_loop L E fs d \<noteq> []"
  by (induction fs) (auto split: option.splits sum.splits)

lemma load_sample_predictions_nonempty: "load_sample_predictions L E \<noteq> []"
  unfolding load_sample_predictions_def
  by (rule load_loop_nonempty) (simp add: default_predictions_def)

text \<open>
  A file whose confidence overflows \<^verbatim>\<open>float\<close> raises while it is loaded: it yields
  nothing, and with no other file the table is the built-in one.
\<close>

lemma overflowing_confidence_is_skipped:
  "yields example_lib overflow_env ''attached_assets/detection_results.json'' = None \<and>
   load_sample_predictions example_lib overflow_env = default_predictions"
  by (simp add: load_sample_predictions_def possible_locations_def overflow_env_def yields_def
      load_file_def py_iter_def item_prediction_def py_in_def py_subscript_def py_float_def
      example_lib_def)

text \<open>
  Claim C7, as stated, fails where the first existing candidate does not load: in
  \<open>two_files_env\<close> the first location exists and raises on decoding, the second one
  loads, and the table is the second file's, not the first existing file's (and not the
  built-in one).
\<close>

theorem first_existing_file_not_used:
  "files two_files_env (possible_locations ! 0) = Some (Inl JSONDecodeError) \<and>
   load_file example_lib (Inl JSONDecodeError) = Inl JSONDecodeError \<and>
   files two_files_env (possible_locations ! 1)
     = Some (Inr (JArr [JObj [(''prediction'', JStr ''Tomato_Early_blight''),
                              (''confidence'', JFloat 0.5)]])) \<and>
   load_sample_predictions example_lib two_files_env = [(JStr ''Tomato_Early_blight'', 0.5)] \<and>
   load_sample_predictions example_lib two_files_env \<noteq> default_predictions"
  by (simp add: load_sample_predictions_def possible_locations_def two_files_env_def
      load_file_def py_iter_def item_prediction_def py_in_def py_subscript_def py_float_def
      default_predictions_def)

text \<open>
  Claim C7, amended. The built-in table has 5 entries. If no candidate file exists, or
  more generally if no candidate location yields a prediction (missing, raising while it
  is loaded, or without an item that has both fields), \<^verbatim>\<open>load_sample_predictions\<close>
  returns the built-in table. Otherwise it returns the predictions of the first location,
  in the order of the list, that yields some: an existing file that fails to load is
  skipped.
\<close>

theorem sample_table_resolution:
  "length default_predictions = 5 \<and>
   ((\<forall>f \<in> set possible_locations. files E f = None) \<longrightarrow>
      load_sample_predictions L E = default_predictions) \<and>
   ((\<forall>f \<in> set possible_locations. yields L E f = None) \<longrightarrow>
      load_sample_predictions L E = default_predictions) \<and>
   (possible_locations = ps @ f # ss \<longrightarrow> (\<forall>g \<in> set ps. yields L E g = None) \<longrightarrow>
      yields L E f = Some t \<longrightarrow> load_sample_predictions L E = t)"
proof (intro conjI impI)
  show "length default_predictions = 5"
    by (simp add: default_predictions_def)
next
  assume "\<forall>f \<in> set possible_locations. files E f = None"
  then have "\<forall>f \<in> set possible_locations. yields L E f = None"
    by (simp add: yields_def)
  then show "load_sample_predictions L E = default_predictions"
    unfolding load_sample_predictions_def by (rule load_loop_none)
next
  assume "\<forall>f \<in> set possible_locations. yields L E f = None"
  then show "load_sample_predictions L E = default_predictions"
    unfolding load_sample_predictions_def by (rule load_loop_none)
next
  assume split: "possible_locations = ps @ f # ss"
    and before: "\<forall>g \<in> set ps. yields L E g = None"
    and here: "yields L E f = Some t"
  have "load_loop L E (ps @ f # ss) default_predictions = t"
    using before here by (rule load_loop_first)
  then show "load_sample_predictions L E = t"
    unfolding load_sample_predictions_def split .
qed

theorem sample_table_resolution_witness:
  "possible_locations =
     [''attached_assets/detection_results.json''] @ ''static/data/detection_results.json''
       # [''detection_results.json''] \<and>
   yields example_lib two_files_env ''attached_assets/detection_results.json'' = None \<and>
   yields example_lib two_files_env ''static/data/detection_results.json''
     = Some [(JStr ''Tomato_Early_blight'', 0.5)] \<and>
   load_sample_predictions example_lib two_files_env = [(JStr ''Tomato_Early_blight'', 0.5)]"
  using sample_table_resolution [of two_files_env example_lib
      "[''attached_assets/detection_results.json'']" "''static/data/detection_results.json''"
      "[''detection_results.json'']" "[(JStr ''Tomato_Early_blight'', 0.5)]"]
  by (simp add: possible_locations_def yields_def two_files_env_def
      load_file_def py_iter_def item_prediction_def py_in_def py_subscript_def py_float_def)

subsection \<open>Properties of the treatment advice\<close>

lemma fallback_Tomato:
  "str_contains (fallback_text ''Tomato_Late_blight'') ''Description''"
  "str_contains (fallback_text ''Tomato_Late_blight'') ''Symptoms''"
  "str_contains (fallback_text ''Tomato_Late_blight'') ''Treatment''"
  "str_contains (fallback_text ''Tomato_Late_blight'') ''Prevention''"
  "str_contains (fallback_text ''Tomato_Late_blight'') ''Tomato Late blight''"
  by (simp_all add: fallback_text_def str_replace_def nl_def)

text \<open>
  Claim C9. When the external generative-text call raises (which is how a missing
  credential shows: the function itself never looks at the key), the advice for
  \<^verbatim>\<open>Tomato_Late_blight\<close> is the canned text; it contains the four section headers and the
  phrase "Tomato Late blight". The function returns a str, it raises nothing.
\<close>

theorem advice_fallback:
  assumes "generate_content (prompt_for ''Tomato Late blight'') = Inl e"
  shows "get_treatment_recommendation generate_content ''Tomato_Late_blight''
           = fallback_text ''Tomato_Late_blight'' \<and>
         str_contains (get_treatment_recommendation generate_content ''Tomato_Late_blight'') ''Description'' \<and>
         str_contains (get_treatment_recommendation generate_content ''Tomato_Late_blight'') ''Symptoms'' \<and>
         str_contains (get_treatment_recommendation generate_content ''Tomato_Late_blight'') ''Treatment'' \<and>
         str_contains (get_treatment_recommendation generate_content ''Tomato_Late_blight'') ''Prevention'' \<and>
         str_contains (get_treatment_recommendation generate_content ''Tomato_Late_blight'') ''Tomato Late blight''"
proof -
  have name: "str_replace CHR ''_'' CHR '' '' ''Tomato_Late_blight'' = ''Tomato Late blight''"
    by (simp add: str_replace_def)
  have eq: "get_treatment_recommendation generate_content ''Tomato_Late_blight''
          = fallback_text ''Tomato_Late_blight''"
    unfolding get_treatment_recommendation_def Let_def name using assms by simp
  show ?thesis
    unfolding eq by (intro conjI refl fallback_Tomato)
qed

theorem advice_fallback_witness:
  "failing_call (prompt_for ''Tomato Late blight'') = Inl ApiError \<and>
   get_treatment_recommendation failing_call ''Tomato_Late_blight''
     = fallback_text ''Tomato_Late_blight'' \<and>
   str_contains (get_treatment_recommendation failing_call ''Tomato_Late_blight'')
     ''Tomato Late blight''"
proof -
  have h: "failing_call (prompt_for ''Tomato Late blight'') = Inl ApiError"
    by (simp add: failing_call_def)
  from advice_fallback [of failing_call ApiError, OF h] h show ?thesis by blast
qed

subsection \<open>Properties of feature extraction\<close>

lemma length_pixels: "length (pixels img) = height img * width img"
  by (simp add: pixels_def length_concat o_def sum_list_triv)

lemma pixels_nonempty: "\<not> img_empty img \<Longrightarrow> pixels img \<noteq> []"
  using length_pixels [of img] by (auto simp add: img_empty_def)

lemma set_pixels:
  "x \<in> set (pixels img) \<Longrightarrow> \<exists>i j. x = px img i j"
  by (auto simp add: pixels_def)

lemma sum_list_bounds:
  fixes xs :: "real list"
  assumes "\<forall>x \<in> set xs. a \<le> x \<and> x \<le> b"
  shows "real (length xs) * a \<le> sum_list xs \<and> sum_list xs \<le> real (length xs) * b"
  using assms by (induction xs) (auto simp add: algebra_simps)

lemma np_mean_bounds:
  assumes "xs \<noteq> []" and "\<forall>x \<in> set xs. a \<le> x \<and> x \<le> b"
  shows "a \<le> np_mean xs \<and> np_mean xs \<le> b"
proof -
  have n: "0 < real (length xs)" using assms(1) by simp
  from sum_list_bounds [OF assms(2)] n show ?thesis
    unfolding np_mean_def by (simp add: pos_le_divide_eq pos_divide_le_eq mult.commute)
qed

lemma np_std_bounds:
  assumes "xs \<noteq> []" and "\<forall>x \<in> set xs. 0 \<le> x \<and> x \<le> 1"
  shows "0 \<le> np_std xs \<and> np_std xs \<le> 1"
proof -
  let ?m = "np_mean xs"
  have m: "0 \<le> ?m \<and> ?m \<le> 1" using np_mean_bounds [OF assms] .
  have sq: "\<forall>y \<in> set (map (\<lambda>x. \<bar>x - ?m\<bar>\<^sup>2) xs). 0 \<le> y \<and> y \<le> 1"
  proof
    fix y assume "y \<in> set (map (\<lambda>x. \<bar>x - ?m\<bar>\<^sup>2) xs)"
    then obtain x where x: "x \<in> set xs" "y = \<bar>x - ?m\<bar>\<^sup>2" by auto
    have "\<bar>x - ?m\<bar> \<le> 1" using assms(2) x(1) m by (auto simp add: abs_le_iff)
    then have "\<bar>x - ?m\<bar>\<^sup>2 \<le> 1" by (simp add: abs_square_le_1)
    then show "0 \<le> y \<and> y \<le> 1" using x(2) by simp
  qed
  have "map (\<lambda>x. \<bar>x - ?m\<bar>\<^sup>2) xs \<noteq> []" using assms(1) by simp
  from np_mean_bounds [OF this sq]
  show ?thesis unfolding np_std_def by (simp add: real_sqrt_le_1_iff)
qed

lemma np_percentile_bounds:
  assumes ne: "xs \<noteq> []" and b: "\<forall>x \<in> set xs. 0 \<le> x \<and> x \<le> 1"
    and q: "0 \<le> q" "q \<le> 100"
  shows "0 \<le> np_percentile xs q \<and> np_percentile xs q \<le> 1"
proof -
  define s where "s = sort xs"
  define n where "n = length s"
  define pos where "pos = q / 100 * real (n - 1)"
  define lo where "lo = nat \<lfloor>pos\<rfloor>"
  define hi where "hi = min (lo + 1) (n - 1)"
  define g where "g = pos - real lo"
  have n: "0 < n" using ne by (simp add: n_def s_def)
  have pos0: "0 \<le> pos" using q by (simp add: pos_def)
  have "q / 100 \<le> 1" using q by simp
  then have "q / 100 * real (n - 1) \<le> 1 * real (n - 1)"
    by (rule mult_right_mono) simp
  then have posn: "pos \<le> real (n - 1)" by (simp add: pos_def)
  have lo_eq: "real lo = of_int \<lfloor>pos\<rfloor>" using pos0 by (simp add: lo_def)
  have g: "0 \<le> g" "g \<le> 1" unfolding g_def lo_eq by linarith+
  have "\<lfloor>pos\<rfloor> \<le> int (n - 1)" using posn by (simp add: floor_le_iff)
  then have lo: "lo < n" using n by (simp add: lo_def)
  have hi: "hi < n" using n by (simp add: hi_def)
  have mem: "\<And>k. k < n \<Longrightarrow> 0 \<le> s ! k \<and> s ! k \<le> 1"
  proof -
    fix k assume "k < n"
    then have "s ! k \<in> set xs" unfolding n_def s_def by (metis nth_mem set_sort)
    then show "0 \<le> s ! k \<and> s ! k \<le> 1" using b by blast
  qed
  have eq: "np_percentile xs q = s ! lo + g * (s ! hi - s ! lo)"
    by (simp add: np_percentile_def Let_def s_def n_def pos_def lo_def hi_def g_def)
  have conv: "s ! lo + g * (s ! hi - s ! lo) = (1 - g) * s ! lo + g * s ! hi"
    by (simp add: algebra_simps)
  have lower: "0 \<le> (1 - g) * s ! lo + g * s ! hi"
    using g mem [OF lo] mem [OF hi] by simp
  have "(1 - g) * s ! lo \<le> (1 - g) * 1" "g * s ! hi \<le> g * 1"
    using g mem [OF lo] mem [OF hi] by (simp_all add: mult_left_le)
  then have upper: "(1 - g) * s ! lo + g * s ! hi \<le> 1" by simp
  show ?thesis unfolding eq conv using lower upper by simp
qed

lemma ratio_bounds:
  assumes "\<not> img_empty img" and "height m = height img" and "width m = width img"
  shows "0 \<le> real (length (filter P (pixels m))) / real (height img * width img) \<and>
         real (length (filter P (pixels m))) / real (height img * width img) \<le> 1"
proof -
  have "length (filter P (pixels m)) \<le> length (pixels m)" by (rule length_filter_le)
  then have le: "length (filter P (pixels m)) \<le> height img * width img"
    using assms(2,3) by (simp add: length_pixels)
  have pos: "0 < real (height img * width img)" using assms(1) by (simp add: img_empty_def)
  have "real (length (filter P (pixels m))) \<le> real (height img * width img)"
    using le by (rule of_nat_mono)
  then show ?thesis using pos by (simp only: divide_nonneg_pos of_nat_0_le_iff
      pos_divide_le_eq mult_1 simp_thms)
qed

lemma word8_le_255: "unat (a :: 8 word) \<le> 255"
proof -
  have "unat a < 2 ^ LENGTH(8)" by (rule unsigned_less)
  then show ?thesis by simp
qed

lemma map_all: "(\<And>p. P (f p)) \<Longrightarrow> x \<in> set (map f ps) \<Longrightarrow> P x"
  by auto

lemma channel_bounds:
  assumes "x \<in> set (channel i hsv)"
  shows "0 \<le> x \<and> x \<le> 255"
proof -
  let ?f = "\<lambda>p :: pixel.
    case p of (a, b, c) \<Rightarrow> real (unat (if i = 0 then a else if i = 1 then b else c))"
  have f: "0 \<le> ?f p \<and> ?f p \<le> 255" for p
  proof -
    obtain a b c where p: "p = (a, b, c)" by (cases p)
    have "unat (if i = 0 then a else if i = 1 then b else c) \<le> 255"
      by (rule word8_le_255)
    then have le: "real (unat (if i = 0 then a else if i = 1 then b else c)) \<le> 255"
      by linarith
    have ge: "0 \<le> real (unat (if i = 0 then a else if i = 1 then b else c))"
      by (rule of_nat_0_le_iff)
    from ge le show ?thesis unfolding p prod.case by (rule conjI)
  qed
  have "x \<in> set (map ?f (pixels hsv))" using assms by (simp only: channel_def)
  with f show ?thesis by (rule map_all [where P = "\<lambda>x. 0 \<le> x \<and> x \<le> 255" and f = ?f])
qed

lemma channel_nonempty: "\<not> img_empty hsv \<Longrightarrow> channel i hsv \<noteq> []"
  by (simp add: channel_def pixels_nonempty)

lemma channel_mean_bounds:
  assumes "\<not> img_empty hsv"
  shows "0 \<le> np_mean (channel i hsv) / 255 \<and> np_mean (channel i hsv) / 255 \<le> 1"
proof -
  have "\<forall>x \<in> set (channel i hsv). 0 \<le> x \<and> x \<le> 255"
    using channel_bounds by blast
  from np_mean_bounds [OF channel_nonempty [OF assms] this] show ?thesis by simp
qed

lemma extract_color_features_ok:
  assumes ne: "\<not> img_empty img"
  shows "\<exists>c. extract_color_features L img = Inr c \<and> length c = 8 \<and>
           (\<forall>x \<in> set c. 0 \<le> x \<and> x \<le> 1)"
proof -
  define hsv where
    "hsv = \<lparr>height = height img, width = width img, px = (\<lambda>i j. rgb2hsv L (px img i j))\<rparr>"
  have cvt: "cvtColor (rgb2hsv L) img = Inr hsv"
    using ne by (simp add: cvtColor_def hsv_def)
  have hsv_ne: "\<not> img_empty hsv" using ne by (simp add: img_empty_def hsv_def)
  define ratios where "ratios =
    map (\<lambda>(indicator, lower, upper).
           let mask = inRange hsv lower upper;
               ratio = real (length (filter (\<lambda>m. m > 0) (pixels mask)))
                         / real (height img * width img)
           in ratio) DISEASE_INDICATORS"
  define means where "means = map (\<lambda>i. np_mean (channel i hsv) / 255) [0, 1, 2]"
  have eq: "extract_color_features L img = Inr (ratios @ means)"
    by (simp add: extract_color_features_def cvt ratios_def means_def)
  have len: "length (ratios @ means) = 8"
    by (simp add: ratios_def means_def DISEASE_INDICATORS_def)
  have one: "0 \<le> real (length (filter (\<lambda>m. m > 0) (pixels (inRange hsv lower upper))))
                     / real (height img * width img) \<and>
             real (length (filter (\<lambda>m. m > 0) (pixels (inRange hsv lower upper))))
                     / real (height img * width img) \<le> 1" for lower upper
  proof -
    have "height (inRange hsv lower upper) = height img"
      "width (inRange hsv lower upper) = width img"
      by (simp_all add: inRange_def hsv_def)
    then show ?thesis by (rule ratio_bounds [OF ne])
  qed
  have r: "\<forall>x \<in> set ratios. 0 \<le> x \<and> x \<le> 1"
    unfolding ratios_def Let_def set_map split_def using one by blast
  have m: "\<forall>x \<in> set means. 0 \<le> x \<and> x \<le> 1"
    using channel_mean_bounds [OF hsv_ne] by (auto simp add: means_def)
  show ?thesis using eq len r m by auto
qed

lemma np_max_ge: "x \<in> set xs \<Longrightarrow> x \<le> np_max xs"
  by (simp add: np_max_def)

lemma normalise_bounds:
  assumes "\<forall>x \<in> set xs. 0 \<le> x"
  shows "\<forall>y \<in> set (if np_max xs > 0 then map (\<lambda>g. g / np_max xs) xs else xs).
           0 \<le> y \<and> y \<le> 1"
proof (cases "np_max xs > 0")
  case True
  have "\<And>x. x \<in> set xs \<Longrightarrow> 0 \<le> x / np_max xs \<and> x / np_max xs \<le> 1"
    using True assms np_max_ge [of _ xs] by (simp add: pos_divide_le_eq)
  then show ?thesis using True by auto
next
  case False
  have "\<And>x. x \<in> set xs \<Longrightarrow> 0 \<le> x \<and> x \<le> 1"
  proof -
    fix x assume x: "x \<in> set xs"
    then have "x \<le> np_max xs" by (rule np_max_ge)
    then show "0 \<le> x \<and> x \<le> 1" using False assms x by auto
  qed
  then show ?thesis using False by auto
qed

lemma extract_texture_features_ok:
  assumes ne: "\<not> img_empty img"
  shows "\<exists>t. extract_texture_features L img = Inr t \<and> length t = 3 \<and>
           (\<forall>x \<in> set t. 0 \<le> x \<and> x \<le> 1)"
proof -
  define gray where
    "gray = \<lparr>height = height img, width = width img, px = (\<lambda>i j. rgb2gray L (px img i j))\<rparr>"
  have cvt: "cvtColor (rgb2gray L) img = Inr gray"
    using ne by (simp add: cvtColor_def gray_def)
  define mag where "mag = \<lparr>height = height gray, width = width gray,
      px = (\<lambda>i j. sqrt ((sobel_x L gray i j)\<^sup>2 + (sobel_y L gray i j)\<^sup>2))\<rparr>"
  define gm where "gm = pixels mag"
  define gm' where "gm' = (if np_max gm > 0 then map (\<lambda>g. g / np_max gm) gm else gm)"
  have eq: "extract_texture_features L img
              = Inr [np_mean gm', np_std gm', np_percentile gm' 90]"
    by (simp add: extract_texture_features_def cvt Let_def gm'_def gm_def mag_def)
  have "\<not> img_empty mag" using ne by (simp add: img_empty_def mag_def gray_def)
  then have gm_ne: "gm \<noteq> []" unfolding gm_def by (rule pixels_nonempty)
  have gm_pos: "\<forall>x \<in> set gm. 0 \<le> x"
  proof
    fix x assume "x \<in> set gm"
    then have "x \<in> set (pixels mag)" by (simp only: gm_def)
    then have "\<exists>i j. x = px mag i j" by (rule set_pixels)
    then show "0 \<le> x" by (auto simp add: mag_def)
  qed
  have b: "\<forall>y \<in> set gm'. 0 \<le> y \<and> y \<le> 1"
    unfolding gm'_def using gm_pos by (rule normalise_bounds)
  have ne': "gm' \<noteq> []" using gm_ne by (simp add: gm'_def)
  have "0 \<le> np_mean gm' \<and> np_mean gm' \<le> 1" using ne' b by (rule np_mean_bounds)
  moreover have "0 \<le> np_std gm' \<and> np_std gm' \<le> 1" using ne' b by (rule np_std_bounds)
  moreover have "0 \<le> np_percentile gm' 90 \<and> np_percentile gm' 90 \<le> 1"
    using ne' b by (rule np_percentile_bounds) simp_all
  ultimately show ?thesis using eq by simp
qed

text \<open>
  Claim C5. On every image that is not empty (at least one row and one column, which is
  what a decoded image is) both sub-extractions return: 5 colour ratios and 3 channel
  means, then 3 texture statistics, 11 numbers in all, each within \<open>[0, 1]\<close>. This
  holds whatever the colour conversions and the Sobel derivatives compute; arithmetic is
  over the reals.
\<close>

theorem features_in_unit_interval:
  assumes "\<not> img_empty img"
  shows "\<exists>color_features texture_features.
           extract_color_features L img = Inr color_features \<and>
           extract_texture_features L img = Inr texture_features \<and>
           length color_features = 5 + 3 \<and> length texture_features = 3 \<and>
           length (color_features @ texture_features) = 11 \<and>
           (\<forall>x \<in> set (color_features @ texture_features). 0 \<le> x \<and> x \<le> 1)"
proof -
  obtain c where c: "extract_color_features L img = Inr c" "length c = 8"
      "\<forall>x \<in> set c. 0 \<le> x \<and> x \<le> 1"
    using extract_color_features_ok [OF assms] by blast
  obtain t where t: "extract_texture_features L img = Inr t" "length t = 3"
      "\<forall>x \<in> set t. 0 \<le> x \<and> x \<le> 1"
    using extract_texture_features_ok [OF assms] by blast
  show ?thesis using c t by auto
qed

theorem features_in_unit_interval_witness:
  "\<not> img_empty one_pixel_image \<and>
   extract_color_features example_lib one_pixel_image
     = Inr [1, 0, 0, 0, 1, 10 / 255, 120 / 255, 50 / 255] \<and>
   extract_texture_features example_lib one_pixel_image = Inr [0, 0, 0]"
  using features_in_unit_interval [of one_pixel_image example_lib]
  by (simp add: img_empty_def one_pixel_image_def example_lib_def extract_color_features_def
      extract_texture_features_def cvtColor_def DISEASE_INDICATORS_def inRange_def pixels_def
      channel_def np_mean_def np_max_def np_std_def np_percentile_def Let_def)

subsection \<open>Properties of detection\<close>

lemma detect_try_split:
  "detect_try L E image_path r =
     on_value (detection_features L E image_path) r (\<lambda>features. decide L E features r)"
  by (simp add: detect_try_def detection_features_def decide_def on_value_def
      split: sum.splits)

lemma preprocess_image_cases:
  "preprocess_image L E image_path =
     (case imread E image_path of
        None \<Rightarrow> Inl ValueError
      | Some img \<Rightarrow>
          if img_empty img then Inl CvError
          else Inr \<lparr>height = 224, width = 224,
                    px = (\<lambda>i j. bgr2rgb (resize_px L img i j))\<rparr>)"
  by (simp add: preprocess_image_def resize_def cvtColor_def img_empty_def
      split: option.splits)

lemma detection_features_ok:
  assumes "imread E image_path = Some img" and "\<not> img_empty img"
  shows "\<exists>fs. detection_features L E image_path = Inr fs \<and> length fs = 11 \<and>
           (\<forall>x \<in> set fs. 0 \<le> x \<and> x \<le> 1)"
proof -
  define img' where "img' = \<lparr>height = 224, width = 224,
      px = (\<lambda>i j. bgr2rgb (resize_px L img i j))\<rparr>"
  have pre: "preprocess_image L E image_path = Inr img'"
    using assms by (simp add: preprocess_image_cases img'_def)
  have ne: "\<not> img_empty img'" by (simp add: img_empty_def img'_def)
  obtain c where c: "extract_color_features L img' = Inr c" "length c = 8"
      "\<forall>x \<in> set c. 0 \<le> x \<and> x \<le> 1"
    using extract_color_features_ok [OF ne] by blast
  obtain t where t: "extract_texture_features L img' = Inr t" "length t = 3"
      "\<forall>x \<in> set t. 0 \<le> x \<and> x \<le> 1"
    using extract_texture_features_ok [OF ne] by blast
  have "detection_features L E image_path = Inr (c @ t)"
    by (simp add: detection_features_def pre c(1) t(1))
  moreover have "length (c @ t) = 11" using c(2) t(2) by simp
  moreover have "\<forall>x \<in> set (c @ t). 0 \<le> x \<and> x \<le> 1" using c(3) t(3) by auto
  ultimately show ?thesis by blast
qed

lemma detection_features_fail:
  assumes "imread E image_path = None \<or> (\<exists>img. imread E image_path = Some img \<and> img_empty img)"
  shows "\<exists>e. detection_features L E image_path = Inl e"
  using assms by (auto simp add: detection_features_def preprocess_image_cases)

lemma random_choice_nonempty:
  "seq \<noteq> [] \<Longrightarrow>
   random_choice seq r
     = (Inr (seq ! (draws r (ipos r) mod length seq)), r\<lparr>ipos := Suc (ipos r)\<rparr>)"
  by (simp add: random_choice_def randbelow_def)

lemma decide_sample:
  assumes "floats r (fpos r) < 0.3"
  shows "decide L E features r
           = random_choice (load_sample_predictions L E) (r\<lparr>fpos := Suc (fpos r)\<rparr>)"
  using assms load_sample_predictions_nonempty [of L E]
  by (simp add: decide_def random_random_def Let_def)

lemma CLASSES_nth_mem: "0 \<le> i \<Longrightarrow> i \<le> 38 \<Longrightarrow> CLASSES ! nat i \<in> set CLASSES"
  by (simp add: length_CLASSES)

lemma decide_classify:
  assumes u: "\<not> floats r (fpos r) < 0.3" and len: "length features = 11"
  shows "\<exists>l u' r'. decide L E features r =
           (Inr (JStr l, if str_contains l ''Healthy'' then 0.7 + (0.95 - 0.7) * u'
                         else 0.6 + (0.9 - 0.6) * u'), r') \<and>
           l \<in> set CLASSES \<and> (\<exists>k. u' = floats r k)"
proof -
  let ?r1 = "r\<lparr>fpos := Suc (fpos r)\<rparr>"
  obtain i r2 where c: "simple_disease_classifier features ?r1 = (Inr i, r2)"
      "0 \<le> i" "i \<le> 38" "floats r2 = floats ?r1"
    using classifier_returns [OF len, of ?r1] by blast
  let ?l = "CLASSES ! nat i"
  have g: "getitem CLASSES i = Inr ?l" using c(2,3) by (rule getitem_CLASSES)
  have mem: "?l \<in> set CLASSES" using c(2,3) by (rule CLASSES_nth_mem)
  have "decide L E features r =
          (Inr (JStr ?l, if str_contains ?l ''Healthy''
                         then 0.7 + (0.95 - 0.7) * floats r2 (fpos r2)
                         else 0.6 + (0.9 - 0.6) * floats r2 (fpos r2)),
           r2\<lparr>fpos := Suc (fpos r2)\<rparr>)"
    using u by (simp add: decide_def random_random_def random_uniform_def Let_def c(1) g
        on_value_def)
  moreover have "\<exists>k. floats r2 (fpos r2) = floats r k" using c(4) by auto
  ultimately show ?thesis using mem by blast
qed

lemma detection_features_Inr:
  assumes "detection_features L E image_path = Inr fs"
  shows "length fs = 11 \<and> (\<exists>img. imread E image_path = Some img \<and> \<not> img_empty img)"
proof (cases "imread E image_path")
  case None
  then show ?thesis using assms detection_features_fail [of E image_path L] by auto
next
  case (Some img)
  show ?thesis
  proof (cases "img_empty img")
    case True
    then show ?thesis using Some assms detection_features_fail [of E image_path L] by auto
  next
    case False
    then show ?thesis using Some assms detection_features_ok [OF Some False, of L] by auto
  qed
qed

lemma detect_disease_fallback:
  assumes "detection_features L E image_path = Inl e"
  shows "detect_try L E image_path r = (Inl e, r)"
    and "detect_disease L E image_path r =
      (Inr (load_sample_predictions L E
             ! (draws r (ipos r) mod length (load_sample_predictions L E))),
       r\<lparr>ipos := Suc (ipos r)\<rparr>)"
proof -
  show t: "detect_try L E image_path r = (Inl e, r)"
    by (simp add: detect_try_split assms on_value_def)
  show "detect_disease L E image_path r =
      (Inr (load_sample_predictions L E
             ! (draws r (ipos r) mod length (load_sample_predictions L E))),
       r\<lparr>ipos := Suc (ipos r)\<rparr>)"
    by (simp add: detect_disease_def t
        random_choice_nonempty [OF load_sample_predictions_nonempty])
qed

lemma detect_disease_features:
  assumes "detection_features L E image_path = Inr fs"
  shows "detect_disease L E image_path r =
           (case decide L E fs r of
              (Inr result, r') \<Rightarrow> (Inr result, r')
            | (Inl e, r') \<Rightarrow> random_choice (load_sample_predictions L E) r')"
  by (simp add: detect_disease_def detect_try_split assms on_value_def)

lemma detect_disease_sample:
  assumes "detection_features L E image_path = Inr fs" and "floats r (fpos r) < 0.3"
  shows "detect_disease L E image_path r =
      (Inr (load_sample_predictions L E
             ! (draws r (ipos r) mod length (load_sample_predictions L E))),
       r\<lparr>fpos := Suc (fpos r), ipos := Suc (ipos r)\<rparr>)"
  by (simp add: detect_disease_features [OF assms(1)] decide_sample [OF assms(2)]
      random_choice_nonempty [OF load_sample_predictions_nonempty])

lemma detect_disease_classify:
  assumes "detection_features L E image_path = Inr fs" and "\<not> floats r (fpos r) < 0.3"
  shows "\<exists>l u' r'. detect_disease L E image_path r =
           (Inr (JStr l, if str_contains l ''Healthy'' then 0.7 + (0.95 - 0.7) * u'
                         else 0.6 + (0.9 - 0.6) * u'), r') \<and>
           l \<in> set CLASSES \<and> (\<exists>k. u' = floats r k)"
proof -
  have len: "length fs = 11" using detection_features_Inr [OF assms(1)] by simp
  obtain l u' r' where d: "decide L E fs r =
           (Inr (JStr l, if str_contains l ''Healthy'' then 0.7 + (0.95 - 0.7) * u'
                         else 0.6 + (0.9 - 0.6) * u'), r')"
      "l \<in> set CLASSES" "\<exists>k. u' = floats r k"
    using decide_classify [OF assms(2) len, of L E] by blast
  show ?thesis
    unfolding detect_disease_features [OF assms(1)] d(1) using d(2,3) by auto
qed

lemma sample_choice_mem:
  "load_sample_predictions L E ! (n mod length (load_sample_predictions L E))
     \<in> set (load_sample_predictions L E)"
  using load_sample_predictions_nonempty [of L E] by simp

text \<open>
  Claim C2, amended. \<^verbatim>\<open>detect_disease\<close> returns a pair on every call and raises
  nothing. When the image cannot be read (or is empty), \<^verbatim>\<open>preprocess_image\<close> raises to
  \<^verbatim>\<open>detect_disease\<close>, whose \<^verbatim>\<open>except\<close> clause recovers like for every other error:
  the result is the entry of the sample table that the next bounded draw selects.
\<close>

theorem detect_disease_never_raises:
  "(\<exists>result r'. detect_disease L E image_path r = (Inr result, r')) \<and>
   (imread E image_path = None \<or> (\<exists>img. imread E image_path = Some img \<and> img_empty img) \<longrightarrow>
      (\<exists>e. preprocess_image L E image_path = Inl e) \<and>
      detect_disease L E image_path r =
        (Inr (load_sample_predictions L E
               ! (draws r (ipos r) mod length (load_sample_predictions L E))),
         r\<lparr>ipos := Suc (ipos r)\<rparr>))"
proof (intro conjI impI)
  show "\<exists>result r'. detect_disease L E image_path r = (Inr result, r')"
  proof (cases "detection_features L E image_path")
    case (Inl e)
    then show ?thesis using detect_disease_fallback(2) by blast
  next
    case (Inr fs)
    show ?thesis
    proof (cases "floats r (fpos r) < 0.3")
      case True
      then show ?thesis using detect_disease_sample [OF Inr] by blast
    next
      case False
      then show ?thesis using detect_disease_classify [OF Inr] by blast
    qed
  qed
next
  assume bad: "imread E image_path = None \<or>
    (\<exists>img. imread E image_path = Some img \<and> img_empty img)"
  then show "\<exists>e. preprocess_image L E image_path = Inl e"
    by (auto simp add: preprocess_image_cases)
  from bad obtain e where "detection_features L E image_path = Inl e"
    using detection_features_fail by blast
  then show "detect_disease L E image_path r =
        (Inr (load_sample_predictions L E
               ! (draws r (ipos r) mod length (load_sample_predictions L E))),
         r\<lparr>ipos := Suc (ipos r)\<rparr>)"
    by (rule detect_disease_fallback(2))
qed

text \<open>
  Claim C6, amended. On a call where the image is read and not empty and the draw for
  the sample substitution is not below 0.3, the rules run: the label is one of
  \<^verbatim>\<open>CLASSES\<close>, and the confidence lies in \<open>[0.7, 0.95]\<close> when the label contains
  \<^verbatim>\<open>Healthy\<close> and in \<open>[0.6, 0.9]\<close> otherwise.
\<close>

theorem classifier_path_confidence:
  assumes "rng_ok r" and "imread E image_path = Some img" and "\<not> img_empty img"
    and "\<not> floats r (fpos r) < 0.3"
  shows "\<exists>l c r'. detect_disease L E image_path r = (Inr (JStr l, c), r') \<and>
           l \<in> set CLASSES \<and>
           (if str_contains l ''Healthy'' then 0.7 \<le> c \<and> c \<le> 0.95
            else 0.6 \<le> c \<and> c \<le> 0.9)"
proof -
  obtain fs where fs: "detection_features L E image_path = Inr fs"
    using detection_features_ok [OF assms(2,3)] by blast
  obtain l u' r' where d: "detect_disease L E image_path r =
           (Inr (JStr l, if str_contains l ''Healthy'' then 0.7 + (0.95 - 0.7) * u'
                         else 0.6 + (0.9 - 0.6) * u'), r')"
      "l \<in> set CLASSES" "\<exists>k. u' = floats r k"
    using detect_disease_classify [OF fs assms(4)] by blast
  have u: "0 \<le> u'" "u' < 1" using d(3) assms(1) by (auto simp add: rng_ok_def)
  have "if str_contains l ''Healthy''
        then 0.7 \<le> 0.7 + (0.95 - 0.7) * u' \<and> 0.7 + (0.95 - 0.7) * u' \<le> 0.95
        else 0.6 \<le> 0.6 + (0.9 - 0.6) * u' \<and> 0.6 + (0.9 - 0.6) * u' \<le> 0.9"
    using u by simp
  then show ?thesis using d(1,2) by (auto split: if_splits)
qed

text \<open>
  Claim C1, amended. Every detection call returns a pair. When the image is read and not
  empty and the sample substitution is not drawn, the label is a member of \<^verbatim>\<open>CLASSES\<close>
  and the confidence lies strictly between 0 and 1. On the sample-substitution path and
  on the error-fallback path the pair is an entry of the table that
  \<^verbatim>\<open>load_sample_predictions\<close> returns, whatever that entry holds.
\<close>

theorem detection_result_invariant:
  assumes "rng_ok r"
  shows "\<exists>result r'. detect_disease L E image_path r = (Inr result, r') \<and>
           (if (\<exists>img. imread E image_path = Some img \<and> \<not> img_empty img) \<and>
               \<not> floats r (fpos r) < 0.3
            then (\<exists>l. fst result = JStr l \<and> l \<in> set CLASSES) \<and>
                 0 < snd result \<and> snd result < 1
            else result \<in> set (load_sample_predictions L E))"
proof (cases "detection_features L E image_path")
  case (Inl e)
  have no: "\<not> (\<exists>img. imread E image_path = Some img \<and> \<not> img_empty img)"
    using Inl detection_features_ok [of E image_path _ L] by fastforce
  show ?thesis
    using no detect_disease_fallback(2) [OF Inl, of r]
      sample_choice_mem [of L E "draws r (ipos r)"]
    by auto
next
  case (Inr fs)
  have yes: "\<exists>img. imread E image_path = Some img \<and> \<not> img_empty img"
    using detection_features_Inr [OF Inr] by simp
  show ?thesis
  proof (cases "floats r (fpos r) < 0.3")
    case True
    show ?thesis
      using True detect_disease_sample [OF Inr True]
        sample_choice_mem [of L E "draws r (ipos r)"]
      by auto
  next
    case False
    obtain l u' r' where d: "detect_disease L E image_path r =
           (Inr (JStr l, if str_contains l ''Healthy'' then 0.7 + (0.95 - 0.7) * u'
                         else 0.6 + (0.9 - 0.6) * u'), r')"
      "l \<in> set CLASSES" "\<exists>k. u' = floats r k"
      using detect_disease_classify [OF Inr False] by blast
    have u: "0 \<le> u'" "u' < 1" using d(3) assms by (auto simp add: rng_ok_def)
    have "0 < (if str_contains l ''Healthy'' then 0.7 + (0.95 - 0.7) * u'
                         else 0.6 + (0.9 - 0.6) * u') \<and>
          (if str_contains l ''Healthy'' then 0.7 + (0.95 - 0.7) * u'
                         else 0.6 + (0.9 - 0.6) * u') < 1"
      using u by simp
    then show ?thesis using yes False d(1,2) by auto
  qed
qed

lemma leaf_env_table: "load_sample_predictions L leaf_env = default_predictions"
  by (simp add: load_sample_predictions_def possible_locations_def leaf_env_def)

lemma two_files_table:
  "load_sample_predictions example_lib two_files_env = [(JStr ''Tomato_Early_blight'', 0.5)]"
  by (simp add: load_sample_predictions_def possible_locations_def two_files_env_def
      load_file_def py_iter_def item_prediction_def py_in_def py_subscript_def py_float_def)

lemma leaf_image:
  "imread leaf_env ''leaf.jpg'' = Some one_pixel_image" "\<not> img_empty one_pixel_image"
  by (simp_all add: leaf_env_def img_empty_def one_pixel_image_def)

text \<open>The first label of the built-in table is not one of \<^verbatim>\<open>CLASSES\<close>.\<close>

lemma Apple_Scab_not_a_class: "''Apple_Scab'' \<notin> set CLASSES"
  by (simp add: CLASSES_def)

lemma percent_file_table:
  "load_sample_predictions example_lib percent_file_env
     = [(JStr ''Tomato_Early_Blight'', 95.2)]"
  by (simp add: load_sample_predictions_def possible_locations_def percent_file_env_def
      load_file_def py_iter_def item_prediction_def py_in_def py_subscript_def py_float_def)

text \<open>
  Claim C1, as stated, fails on the sample-substitution path: a sample file is loaded
  without any check of its labels and confidences, and an entry is returned as it is.
\<close>

theorem sample_entry_outside_invariant:
  "detect_disease example_lib percent_file_env ''leaf.jpg'' (const_rng 0.1 0)
     = (Inr (JStr ''Tomato_Early_Blight'', 95.2), (const_rng 0.1 0)\<lparr>fpos := 1, ipos := 1\<rparr>) \<and>
   ''Tomato_Early_Blight'' \<notin> set CLASSES \<and>
   \<not> (95.2 :: real) < 1"
proof -
  have "imread percent_file_env ''leaf.jpg'' = Some one_pixel_image"
    by (simp add: percent_file_env_def)
  then obtain fs where
    fs: "detection_features example_lib percent_file_env ''leaf.jpg'' = Inr fs"
    using detection_features_ok [OF _ leaf_image(2)] by blast
  have "floats (const_rng 0.1 0) (fpos (const_rng 0.1 0)) < 0.3"
    by (simp add: const_rng_def)
  from detect_disease_sample [OF fs this] show ?thesis
    by (simp add: percent_file_table const_rng_def CLASSES_def)
qed

theorem detection_result_invariant_witness:
  "rng_ok (const_rng 0.5 0) \<and>
   imread leaf_env ''leaf.jpg'' = Some one_pixel_image \<and> \<not> img_empty one_pixel_image \<and>
   \<not> floats (const_rng 0.5 0) (fpos (const_rng 0.5 0)) < 0.3 \<and>
   (\<exists>l c r'. detect_disease example_lib leaf_env ''leaf.jpg'' (const_rng 0.5 0)
              = (Inr (JStr l, c), r') \<and> l \<in> set CLASSES \<and> 0 < c \<and> c < 1)"
proof -
  have ok: "rng_ok (const_rng 0.5 0)" by (simp add: rng_ok_def const_rng_def)
  have u: "\<not> floats (const_rng 0.5 0) (fpos (const_rng 0.5 0)) < 0.3"
    by (simp add: const_rng_def)
  have img: "\<exists>img. imread leaf_env ''leaf.jpg'' = Some img \<and> \<not> img_empty img"
    using leaf_image by blast
  from detection_result_invariant [OF ok, of example_lib leaf_env "''leaf.jpg''"] img u
  obtain result r' where
    "detect_disease example_lib leaf_env ''leaf.jpg'' (const_rng 0.5 0) = (Inr result, r')"
    "\<exists>l. fst result = JStr l \<and> l \<in> set CLASSES" "0 < snd result" "snd result < 1"
    by auto
  then have "\<exists>l c r'. detect_disease example_lib leaf_env ''leaf.jpg'' (const_rng 0.5 0)
              = (Inr (JStr l, c), r') \<and> l \<in> set CLASSES \<and> 0 < c \<and> c < 1"
    by (cases result) auto
  then show ?thesis using ok u leaf_image by blast
qed

text \<open>
  Claim C2, as stated, fails where the image cannot be loaded: \<^verbatim>\<open>preprocess_image\<close>
  raises, and \<^verbatim>\<open>detect_disease\<close> returns an entry of the sample table instead of raising.
\<close>

theorem unreadable_image_is_recovered:
  "imread two_files_env ''upload.jpg'' = None \<and>
   preprocess_image example_lib two_files_env ''upload.jpg'' = Inl ValueError \<and>
   detect_disease example_lib two_files_env ''upload.jpg'' (const_rng 0.5 0)
     = (Inr (JStr ''Tomato_Early_blight'', 0.5), (const_rng 0.5 0)\<lparr>ipos := 1\<rparr>)"
proof -
  have none: "imread two_files_env ''upload.jpg'' = None" by (simp add: two_files_env_def)
  then have pre: "preprocess_image example_lib two_files_env ''upload.jpg'' = Inl ValueError"
    by (simp add: preprocess_image_cases)
  then have "detection_features example_lib two_files_env ''upload.jpg'' = Inl ValueError"
    by (simp add: detection_features_def)
  from detect_disease_fallback(2) [OF this, of "const_rng 0.5 0"] none pre show ?thesis
    by (simp add: two_files_table const_rng_def)
qed

theorem detect_disease_never_raises_witness:
  "imread leaf_env ''missing.jpg'' = None \<and>
   (\<exists>e. preprocess_image example_lib leaf_env ''missing.jpg'' = Inl e) \<and>
   detect_disease example_lib leaf_env ''missing.jpg'' (const_rng 0.5 1)
     = (Inr (JStr ''Tomato_Late_blight'', 0.856), (const_rng 0.5 1)\<lparr>ipos := 1\<rparr>)"
proof -
  have none: "imread leaf_env ''missing.jpg'' = None" by (simp add: leaf_env_def)
  from detect_disease_never_raises [of example_lib leaf_env "''missing.jpg''" "const_rng 0.5 1"]
    none show ?thesis
    by (simp add: leaf_env_table default_predictions_def const_rng_def)
qed

text \<open>
  Claim C6, as stated, fails on the error-fallback path: no sample substitution is drawn
  (the body raises before any draw), and the pair returned has a label without
  \<^verbatim>\<open>Healthy\<close> and a confidence above 0.9.
\<close>

theorem fallback_confidence_outside_range:
  "detect_try example_lib leaf_env ''missing.jpg'' (const_rng 0.5 0)
     = (Inl ValueError, const_rng 0.5 0) \<and>
   detect_disease example_lib leaf_env ''missing.jpg'' (const_rng 0.5 0)
     = (Inr (JStr ''Apple_Scab'', 0.904), (const_rng 0.5 0)\<lparr>ipos := 1\<rparr>) \<and>
   \<not> str_contains ''Apple_Scab'' ''Healthy'' \<and>
   \<not> (0.6 \<le> (0.904 :: real) \<and> (0.904 :: real) \<le> 0.9)"
proof -
  have "imread leaf_env ''missing.jpg'' = None" by (simp add: leaf_env_def)
  then have "detection_features example_lib leaf_env ''missing.jpg'' = Inl ValueError"
    by (simp add: detection_features_def preprocess_image_cases)
  from detect_disease_fallback [OF this, of "const_rng 0.5 0"] show ?thesis
    by (simp add: leaf_env_table default_predictions_def const_rng_def)
qed

theorem classifier_path_confidence_witness:
  "rng_ok (const_rng 0.5 0) \<and>
   imread leaf_env ''leaf.jpg'' = Some one_pixel_image \<and> \<not> img_empty one_pixel_image \<and>
   \<not> floats (const_rng 0.5 0) (fpos (const_rng 0.5 0)) < 0.3 \<and>
   (\<exists>l c r'. detect_disease example_lib leaf_env ''leaf.jpg'' (const_rng 0.5 0)
              = (Inr (JStr l, c), r') \<and> l \<in> set CLASSES \<and>
              (if str_contains l ''Healthy'' then 0.7 \<le> c \<and> c \<le> 0.95
               else 0.6 \<le> c \<and> c \<le> 0.9))"
proof -
  have ok: "rng_ok (const_rng 0.5 0)" by (simp add: rng_ok_def const_rng_def)
  have u: "\<not> floats (const_rng 0.5 0) (fpos (const_rng 0.5 0)) < 0.3"
    by (simp add: const_rng_def)
  from classifier_path_confidence [OF ok leaf_image u, of example_lib] ok u leaf_image
  show ?thesis by blast
qed

subsection \<open>Determinism of feature extraction\<close>








end
